theory Spec2Isabelle
  imports Main "HOL-Library.Multiset"
begin

section \<open>Platform values\<close>

text \<open>
  A value as \<open>JSON.parse\<close> returns it. \<open>JUndefined\<close> is what reading a missing property
  gives. A parsed object is an association list of its own properties.
\<close>

datatype js =
    JUndefined
  | JNull
  | JBool bool
  | JNum int
  | JStr string
  | JArr "js list"
  | JObj "(string \<times> js) list"

text \<open>JavaScript truthiness, as \<open>if (v)\<close>, \<open>!v\<close> and \<open>a || b\<close> test it.\<close>

fun truthy :: "js \<Rightarrow> bool" where
  "truthy JUndefined = False"
| "truthy JNull = False"
| "truthy (JBool b) = b"
| "truthy (JNum n) = (n \<noteq> 0)"
| "truthy (JStr s) = (s \<noteq> [])"
| "truthy (JArr xs) = True"
| "truthy (JObj kvs) = True"

text \<open>Reading a named property \<open>v.k\<close> of a value that is neither null nor undefined.\<close>

fun get_prop :: "js \<Rightarrow> string \<Rightarrow> js" where
  "get_prop (JObj kvs) k = (case map_of kvs k of Some v \<Rightarrow> v | None \<Rightarrow> JUndefined)"
| "get_prop v k = JUndefined"

text \<open>
  A string-or-null, as \<open>URLSearchParams.get\<close> and \<open>localStorage.getItem\<close> return it, is
  truthy when it is a non-empty string.
\<close>

fun truthy_str :: "string option \<Rightarrow> bool" where
  "truthy_str None = False"
| "truthy_str (Some s) = (s \<noteq> [])"

section \<open>The auth provider's interface\<close>

record User =
  User_id :: string
  email :: string

record Session =
  access_token :: string
  refresh_token :: string
  Session_user :: User

datatype AuthError = AuthError (message: string)

text \<open>
  The provider's answer to \<open>auth.signUp\<close>: an error with no data, or data (a user and a
  session, each possibly null) with no error.
\<close>

datatype AuthResponse =
    AuthData "User option" "Session option"
  | AuthFailure AuthError

datatype AuthChangeEvent =
    INITIAL_SESSION
  | PASSWORD_RECOVERY
  | SIGNED_IN
  | SIGNED_OUT
  | TOKEN_REFRESHED
  | USER_UPDATED

datatype variant = Default | Destructive

record toast_msg =
  title :: string
  description :: string
  variant :: variant

text \<open>What a timer started with \<open>setTimeout\<close> does when it fires.\<close>

datatype timer_action =
    Fetch_user_role string
  | Redirect string

text \<open>The payload of an insert into \<open>referrals\<close>; an undefined property is \<open>None\<close>.\<close>

record NewReferral =
  client_name :: string
  client_email :: string
  client_phone :: string
  client_address :: string

record Referral_insert = NewReferral +
  insert_user_id :: "string option"
  insert_profile_id :: "string option"

text \<open>
  A select on \<open>referrals\<close> as the client builds it: whether the columns embed
  \<open>profiles(user_id, name)\<close>; the value given to \<open>.eq('user_id', _)\<close>, if the filter is
  there (\<open>Some None\<close> when the value is undefined); and the \<open>ascending\<close> option given to
  \<open>.order('created_at', _)\<close>, if the ordering is there.
\<close>

record referrals_select =
  embed_profiles :: bool
  eq_user_id :: "string option option"
  order_created_at_ascending :: "bool option"

text \<open>Every request the client sends to the backend, in the order sent.\<close>

datatype call =
    Auth_signUp string string string string
  | Auth_signInWithPassword string string
  | Auth_signOut
  | Auth_resetPasswordForEmail string string
  | Auth_updateUser string
  | Auth_setSession js js
  | Auth_getSession
  | Select_user_role string
  | Select_referrals referrals_select
  | Select_profiles
  | Select_profile "string option"
  | Insert_referral Referral_insert
  | Update_profile string string "(string \<times> string) list"

section \<open>The session and identity adapter (AuthProvider)\<close>

text \<open>
  From \<open>src/hooks/useAuth.tsx\<close>. The adapter's React state (\<open>user\<close>, \<open>session\<close>, \<open>userRole\<close>, \<open>loading\<close>) together with
  the browser globals its operations read and write: local storage, the location
  (\<open>origin\<close>, \<open>search\<close>, the parsed query \<open>searchParams\<close>, and \<open>href\<close>, which a redirect
  assigns), the notifications shown, the requests sent and the timers pending.
\<close>

record world =
  user :: "User option"
  session :: "Session option"
  userRole :: "string option"
  loading :: bool
  localStorage :: "string \<rightharpoonup> string"
  origin :: string
  search :: string
  searchParams :: "string \<rightharpoonup> string"
  href :: string
  toasts :: "toast_msg list"
  calls :: "call list"
  timers :: "(nat \<times> timer_action) list"

definition toast :: "toast_msg \<Rightarrow> world \<Rightarrow> world" where
  "toast t w = w\<lparr>toasts := toasts w @ [t]\<rparr>"

definition request :: "call \<Rightarrow> world \<Rightarrow> world" where
  "request c w = w\<lparr>calls := calls w @ [c]\<rparr>"

definition setTimeout :: "timer_action \<Rightarrow> nat \<Rightarrow> world \<Rightarrow> world" where
  "setTimeout a ms w = w\<lparr>timers := timers w @ [(ms, a)]\<rparr>"

text \<open>
  \<open>isRecoveryFlow\<close>, computed once when the provider mounts:
  \<open>urlParams.get('type') === 'recovery' || urlParams.get('access_token') ||
  urlParams.get('refresh_token')\<close>, used as a condition.
\<close>

definition isRecoveryFlow :: "world \<Rightarrow> bool" where
  "isRecoveryFlow w =
     (searchParams w ''type'' = Some ''recovery''
      \<or> truthy_str (searchParams w ''access_token'')
      \<or> truthy_str (searchParams w ''refresh_token''))"

text \<open>
  The listener given to \<open>onAuthStateChange\<close>. \<open>recovery\<close> is the \<open>isRecoveryFlow\<close> the
  closure captured; \<open>JSON_stringify\<close> is the platform's serialiser applied to the
  delivered session. The role query is deferred with \<open>setTimeout(..., 0)\<close>.
\<close>

definition onAuthStateChange_listener ::
  "(Session option \<Rightarrow> string) \<Rightarrow> bool \<Rightarrow> AuthChangeEvent \<Rightarrow> Session option \<Rightarrow> world \<Rightarrow> world" where
  "onAuthStateChange_listener JSON_stringify recovery event sess w =
     (if recovery \<and> event = SIGNED_IN then
        (let w1 = w\<lparr>localStorage := (localStorage w)(''recovery_session'' \<mapsto> JSON_stringify sess)\<rparr>;
             w2 = request Auth_signOut w1
         in w2\<lparr>href := ''/reset-password'' @ search w2\<rparr>)
      else
        (let w1 = w\<lparr>session := sess, user := map_option Session_user sess\<rparr>
         in case sess of
              Some s \<Rightarrow>
                if \<not> recovery then setTimeout (Fetch_user_role (User_id (Session_user s))) 0 w1
                else w1\<lparr>userRole := None, loading := False\<rparr>
            | None \<Rightarrow> w1\<lparr>userRole := None, loading := False\<rparr>))"

text \<open>
  The deferred role query: \<open>role\<close> is \<open>roleData?.role\<close> of the row the store returned, and
  \<open>threw\<close> says that the request threw instead, in which case the role is left as it
  was. \<open>loading\<close> is cleared in both cases.
\<close>

definition fetch_user_role :: "string \<Rightarrow> bool \<Rightarrow> string option \<Rightarrow> world \<Rightarrow> world" where
  "fetch_user_role uid threw role w =
     (let w1 = request (Select_user_role uid) w;
          w2 = (if threw then w1
                else w1\<lparr>userRole := (if truthy_str role then role else None)\<rparr>)
      in w2\<lparr>loading := False\<rparr>)"

text \<open>
  The body of the mount effect after subscribing: the existing session is asked for
  only outside a recovery flow; \<open>existing\<close> is the session \<open>getSession\<close> resolves to.
\<close>

definition AuthProvider_mount :: "Session option \<Rightarrow> world \<Rightarrow> world" where
  "AuthProvider_mount existing w =
     (if \<not> isRecoveryFlow w then
        (let w1 = request Auth_getSession w;
             w2 = w1\<lparr>session := existing, user := map_option Session_user existing\<rparr>
         in case existing of
              Some s \<Rightarrow> setTimeout (Fetch_user_role (User_id (Session_user s))) 0 w2
            | None \<Rightarrow> w2\<lparr>loading := False\<rparr>)
      else w\<lparr>loading := False\<rparr>)"

definition signUp ::
  "string \<Rightarrow> string \<Rightarrow> string \<Rightarrow> AuthResponse \<Rightarrow> world \<Rightarrow> AuthError option \<times> world" where
  "signUp mail pwd name resp w =
     (let redirectUrl = origin w @ ''/'';
          w1 = request (Auth_signUp mail pwd name redirectUrl) w
      in case resp of
           AuthFailure err \<Rightarrow>
             (Some err,
              toast \<lparr>title = ''Sign up failed'', description = message err,
                     variant = Destructive\<rparr> w1)
         | AuthData u s \<Rightarrow>
             if u \<noteq> None \<and> s = None then
               (let customError = AuthError
                      ''You already have an account with this email. Please sign in instead.''
                in (Some customError,
                    toast \<lparr>title = ''Account already exists'', description = message customError,
                           variant = Destructive\<rparr> w1))
             else
               (None,
                toast \<lparr>title = ''Check your email'',
                       description = ''Please check your email for a confirmation link.'',
                       variant = Default\<rparr> w1))"

definition signIn ::
  "string \<Rightarrow> string \<Rightarrow> AuthError option \<Rightarrow> world \<Rightarrow> AuthError option \<times> world" where
  "signIn mail pwd err w =
     (let w1 = request (Auth_signInWithPassword mail pwd) w
      in case err of
           Some e \<Rightarrow>
             (err, toast \<lparr>title = ''Sign in failed'', description = message e,
                          variant = Destructive\<rparr> w1)
         | None \<Rightarrow> (err, w1))"

text \<open>
  \<open>signOut\<close> awaits the provider and does not look at what it resolves to; \<open>err\<close> is the
  error the provider reported, if any. It returns nothing.
\<close>

definition signOut :: "AuthError option \<Rightarrow> world \<Rightarrow> world" where
  "signOut err w =
     (let w1 = request Auth_signOut w
      in w1\<lparr>user := None, session := None, userRole := None\<rparr>)"

definition resetPassword ::
  "string \<Rightarrow> AuthError option \<Rightarrow> world \<Rightarrow> AuthError option \<times> world" where
  "resetPassword mail err w =
     (let w1 = request (Auth_resetPasswordForEmail mail (origin w @ ''/reset-password'')) w
      in case err of
           Some e \<Rightarrow>
             (err, toast \<lparr>title = ''Reset failed'', description = message e,
                          variant = Destructive\<rparr> w1)
         | None \<Rightarrow>
             (err, toast \<lparr>title = ''Check your email'',
                          description = ''We've sent you a password reset link that expires in 15 minutes.'',
                          variant = Default\<rparr> w1))"

text \<open>
  The recovery session \<open>updatePassword\<close> reads back: null when the key is absent or its
  string is empty, null when \<open>JSON.parse\<close> throws (\<open>JSON_parse\<close> gives \<open>None\<close>), the parsed
  value otherwise.
\<close>

definition read_recovery_session :: "(string \<Rightarrow> js option) \<Rightarrow> world \<Rightarrow> js" where
  "read_recovery_session JSON_parse w =
     (let recoverySessionStr = localStorage w ''recovery_session''
      in if truthy_str recoverySessionStr then
           (case JSON_parse (the recoverySessionStr) of Some v \<Rightarrow> v | None \<Rightarrow> JNull)
         else JNull)"

text \<open>
  \<open>!sessionToUse?.access_token\<close> for \<open>sessionToUse = recoverySession || session\<close>, negated:
  the recovery session is taken when truthy, else the adapter's session.
\<close>

definition sessionToUse_has_token :: "js \<Rightarrow> Session option \<Rightarrow> bool" where
  "sessionToUse_has_token recoverySession sess =
     (if truthy recoverySession then truthy (get_prop recoverySession ''access_token'')
      else (case sess of Some s \<Rightarrow> access_token s \<noteq> [] | None \<Rightarrow> False))"

definition updatePassword ::
  "(string \<Rightarrow> js option) \<Rightarrow> AuthError option \<Rightarrow> string \<Rightarrow> world \<Rightarrow> AuthError option \<times> world" where
  "updatePassword JSON_parse err pwd w =
     (let recoverySession = read_recovery_session JSON_parse w
      in if \<not> sessionToUse_has_token recoverySession (session w) then
           (let e = AuthError ''No valid session found for password reset''
            in (Some e,
                toast \<lparr>title = ''Password update failed'', description = message e,
                       variant = Destructive\<rparr> w))
         else
           (let w1 = (if truthy recoverySession then
                        request (Auth_setSession (get_prop recoverySession ''access_token'')
                                                 (get_prop recoverySession ''refresh_token'')) w
                      else w);
                w2 = request (Auth_updateUser pwd) w1;
                w3 = w2\<lparr>localStorage := (localStorage w2)(''recovery_session'' := None)\<rparr>
            in case err of
                 Some e \<Rightarrow>
                   (err, toast \<lparr>title = ''Password update failed'', description = message e,
                                variant = Destructive\<rparr> w3)
               | None \<Rightarrow>
                   (err, toast \<lparr>title = ''Password updated'',
                                description = ''Your password has been successfully updated.'',
                                variant = Default\<rparr> w3)))"

text \<open>
  The adapter as it is first rendered (\<open>useState(null)\<close> three times, \<open>useState(true)\<close>)
  in a browser at the given origin, path and query, with the given local storage.
\<close>

definition AuthProvider_init ::
  "string \<Rightarrow> string \<Rightarrow> string \<Rightarrow> (string \<rightharpoonup> string) \<Rightarrow> (string \<rightharpoonup> string) \<Rightarrow> world" where
  "AuthProvider_init org path srch params storage =
     \<lparr>user = None, session = None, userRole = None, loading = True,
      localStorage = storage, origin = org, search = srch, searchParams = params,
      href = org @ path @ srch, toasts = [], calls = [], timers = []\<rparr>"

section \<open>The reset-password view (ResetPassword)\<close>

text \<open>The page component \<open>ResetPassword\<close> and its state.\<close>

record ResetPassword_state =
  password :: string
  confirmPassword :: string
  isLoading :: bool
  isSuccess :: bool
  error :: string

definition ResetPassword_init :: ResetPassword_state where
  "ResetPassword_init =
     \<lparr>password = [], confirmPassword = [], isLoading = False, isSuccess = False, error = []\<rparr>"

text \<open>
  \<open>searchParams.get('type') === 'recovery' || searchParams.get('access_token') ||
  searchParams.get('refresh_token')\<close>, used as a condition.
\<close>

definition isPasswordResetSession :: "world \<Rightarrow> bool" where
  "isPasswordResetSession w =
     (searchParams w ''type'' = Some ''recovery''
      \<or> truthy_str (searchParams w ''access_token'')
      \<or> truthy_str (searchParams w ''refresh_token''))"

text \<open>The effect that runs after rendering, on \<open>[user, isPasswordResetSession]\<close>.\<close>

definition ResetPassword_effect :: "ResetPassword_state \<Rightarrow> world \<Rightarrow> ResetPassword_state" where
  "ResetPassword_effect v w =
     (if isPasswordResetSession w \<and> user w \<noteq> None then v
      else if \<not> isPasswordResetSession w then
        v\<lparr>error := ''Invalid or expired reset link. Please request a new password reset.''\<rparr>
      else v)"

text \<open>What the component returns: one of its four render results.\<close>

datatype ResetPassword_view =
    Navigate_home
  | Success_card
  | Invalid_link
  | Password_form

definition ResetPassword_render :: "ResetPassword_state \<Rightarrow> world \<Rightarrow> ResetPassword_view" where
  "ResetPassword_render v w =
     (if user w \<noteq> None \<and> \<not> isPasswordResetSession w then Navigate_home
      else if isSuccess v then Success_card
      else if \<not> isPasswordResetSession w then Invalid_link
      else Password_form)"

text \<open>
  \<open>handlePasswordReset\<close>; \<open>upd\<close> and \<open>so\<close> are what the provider answers to the password
  update and to the sign-out.
\<close>

definition handlePasswordReset ::
  "(string \<Rightarrow> js option) \<Rightarrow> AuthError option \<Rightarrow> AuthError option \<Rightarrow>
   ResetPassword_state \<times> world \<Rightarrow> ResetPassword_state \<times> world" where
  "handlePasswordReset JSON_parse upd so vw =
     (case vw of (v, w) \<Rightarrow>
        if password v \<noteq> confirmPassword v then (v\<lparr>error := ''Passwords do not match''\<rparr>, w)
        else if length (password v) < 6 then
          (v\<lparr>error := ''Password must be at least 6 characters long''\<rparr>, w)
        else
          (let v1 = v\<lparr>isLoading := True, error := []\<rparr>
           in case updatePassword JSON_parse upd (password v) w of
                (None, w1) \<Rightarrow>
                  (let v2 = v1\<lparr>isSuccess := True\<rparr>;
                       w2 = signOut so w1;
                       w3 = setTimeout (Redirect ''/auth'') 3000 w2
                   in (v2\<lparr>isLoading := False\<rparr>, w3))
              | (Some e, w1) \<Rightarrow>
                  (v1\<lparr>error := (if message e \<noteq> [] then message e
                                else ''Failed to update password''),
                      isLoading := False\<rparr>, w1)))"

text \<open>
  A timer that fires: the redirect assigns \<open>window.location.href\<close>; the deferred role
  query runs with the store's answer (\<open>threw\<close>, \<open>role\<close>).
\<close>

fun fire :: "bool \<Rightarrow> string option \<Rightarrow> timer_action \<Rightarrow> world \<Rightarrow> world" where
  "fire threw role (Redirect url) w = w\<lparr>href := url\<rparr>"
| "fire threw role (Fetch_user_role uid) w = fetch_user_role uid threw role w"

text \<open>
  What can happen while the view is shown. The adapter, mounted on the same URL, may
  deliver an auth state change, which updates \<open>user\<close> and re-runs the effect. The inputs
  and the submit button exist only while the password form is rendered; the button is
  disabled while loading, and the browser does not send the submit event while a
  \<open>required\<close> input is empty. (The inputs' \<open>minLength\<close> is left to the handler, which
  checks the length itself.)
  \<open>Submit_form upd so\<close> carries the provider's answers to the password update and to the
  sign-out.
\<close>

datatype ResetPassword_event =
    Auth_change AuthChangeEvent "Session option"
  | Change_password string
  | Change_confirmPassword string
  | Submit_form "AuthError option" "AuthError option"

definition ResetPassword_step ::
  "(string \<Rightarrow> js option) \<Rightarrow> (Session option \<Rightarrow> string) \<Rightarrow> ResetPassword_event \<Rightarrow>
   ResetPassword_state \<times> world \<Rightarrow> ResetPassword_state \<times> world" where
  "ResetPassword_step JSON_parse JSON_stringify ev vw =
     (case vw of (v, w) \<Rightarrow>
        case ev of
          Auth_change event sess \<Rightarrow>
            (let w1 = onAuthStateChange_listener JSON_stringify (isRecoveryFlow w) event sess w
             in (ResetPassword_effect v w1, w1))
        | Change_password s \<Rightarrow>
            if ResetPassword_render v w = Password_form then (v\<lparr>password := s\<rparr>, w) else (v, w)
        | Change_confirmPassword s \<Rightarrow>
            if ResetPassword_render v w = Password_form then (v\<lparr>confirmPassword := s\<rparr>, w)
            else (v, w)
        | Submit_form upd so \<Rightarrow>
            if ResetPassword_render v w \<noteq> Password_form \<or> isLoading v
               \<or> password v = [] \<or> confirmPassword v = [] then (v, w)
            else handlePasswordReset JSON_parse upd so (v, w))"

fun ResetPassword_run ::
  "(string \<Rightarrow> js option) \<Rightarrow> (Session option \<Rightarrow> string) \<Rightarrow> ResetPassword_event list \<Rightarrow>
   ResetPassword_state \<times> world \<Rightarrow> ResetPassword_state \<times> world" where
  "ResetPassword_run JSON_parse JSON_stringify [] vw = vw"
| "ResetPassword_run JSON_parse JSON_stringify (ev # evs) vw =
     ResetPassword_run JSON_parse JSON_stringify evs
       (ResetPassword_step JSON_parse JSON_stringify ev vw)"

section \<open>The data store\<close>

text \<open>
  The tables of the SQL migrations: a referral row carries the client fields of the form
  besides its own columns; \<open>user_roles\<close> pairs a user id with a role.
\<close>

record Referral = NewReferral +
  referral_id :: string
  user_id :: string
  stage :: string
  bonus_status :: string
  referral_notes :: string
  created_at :: nat

record Profile =
  profile_id :: string
  profile_user_id :: string
  profile_name :: string
  payment_method :: "string option"
  payment_details :: "(string \<times> string) list"

datatype PostgrestError = PostgrestError string

record database =
  referrals_table :: "Referral list"
  user_roles_table :: "(string \<times> string) list"
  profiles_table :: "Profile list"

text \<open>The SQL function \<open>has_role(_user_id, _role)\<close>: a row of \<open>user_roles\<close> with both.\<close>

definition has_role :: "database \<Rightarrow> string option \<Rightarrow> string \<Rightarrow> bool" where
  "has_role db uid role =
     (case uid of None \<Rightarrow> False | Some u \<Rightarrow> (u, role) \<in> set (user_roles_table db))"

text \<open>
  The two row-level policies \<open>FOR SELECT\<close> on \<open>referrals\<close>; \<open>uid\<close> is \<open>auth.uid()\<close>, null for
  a request that carries no signed-in user.
\<close>

definition Users_can_view_their_own_referrals :: "string option \<Rightarrow> Referral \<Rightarrow> bool" where
  "Users_can_view_their_own_referrals uid r = (uid = Some (user_id r))"

definition Admins_can_view_all_referrals :: "database \<Rightarrow> string option \<Rightarrow> Referral \<Rightarrow> bool" where
  "Admins_can_view_all_referrals db uid r = has_role db uid ''admin''"

text \<open>
  The store's select on \<open>referrals\<close>, as the platform documents it: a row is visible to
  a select when at least one permissive \<open>SELECT\<close> policy admits it; an \<open>eq\<close> filter keeps
  the rows with that \<open>user_id\<close>, and the request is refused when its value is undefined;
  an ordering on \<open>created_at\<close> returns the rows earliest first when ascending and latest
  first otherwise, and without one the rows come as the table has them.
\<close>

definition referrals_visible :: "database \<Rightarrow> string option \<Rightarrow> Referral list" where
  "referrals_visible db uid =
     filter (\<lambda>r. Users_can_view_their_own_referrals uid r \<or> Admins_can_view_all_referrals db uid r)
       (referrals_table db)"

definition order_created_at_desc :: "Referral list \<Rightarrow> Referral list" where
  "order_created_at_desc rs = rev (sort_key created_at rs)"

definition order_rows :: "bool option \<Rightarrow> Referral list \<Rightarrow> Referral list" where
  "order_rows ascending rs =
     (case ascending of
        None \<Rightarrow> rs
      | Some True \<Rightarrow> sort_key created_at rs
      | Some False \<Rightarrow> order_created_at_desc rs)"

definition select_referrals ::
  "database \<Rightarrow> string option \<Rightarrow> referrals_select \<Rightarrow> PostgrestError + Referral list" where
  "select_referrals db uid q =
     (case eq_user_id q of
        None \<Rightarrow> Inr (order_rows (order_created_at_ascending q) (referrals_visible db uid))
      | Some None \<Rightarrow> Inl (PostgrestError ''invalid input syntax for type uuid'')
      | Some (Some x) \<Rightarrow>
          Inr (order_rows (order_created_at_ascending q)
                 (filter (\<lambda>r. user_id r = x) (referrals_visible db uid))))"

section \<open>The referrer dashboard (ReferrerDashboard)\<close>

text \<open>
  From \<open>src/components/ReferrerDashboard.tsx\<close>, in its later copy with the payment
  details; \<open>loading_referrals\<close> is the component's \<open>loading\<close>.
\<close>

record ReferrerDashboard_state =
  referrals :: "Referral list"
  loading_referrals :: bool
  userProfile :: "Profile option"
  newReferral :: NewReferral
  isAdding :: bool
  paymentMethod :: string
  paymentDetails :: "(string \<times> string) list"
  isSavingPayment :: bool

definition empty_newReferral :: NewReferral where
  "empty_newReferral =
     \<lparr>client_name = [], client_email = [], client_phone = [], client_address = []\<rparr>"

definition ReferrerDashboard_init :: ReferrerDashboard_state where
  "ReferrerDashboard_init =
     \<lparr>referrals = [], loading_referrals = True, userProfile = None,
      newReferral = empty_newReferral, isAdding = False, paymentMethod = [],
      paymentDetails = [], isSavingPayment = False\<rparr>"

text \<open>
  \<open>fetchUserProfile\<close>; \<open>resp\<close> is the store's answer to
  \<open>from('profiles').select('*').eq('user_id', user?.id).single()\<close>.
\<close>

definition fetchUserProfile ::
  "PostgrestError + Profile \<Rightarrow> ReferrerDashboard_state \<times> world \<Rightarrow> ReferrerDashboard_state \<times> world" where
  "fetchUserProfile resp dw =
     (case dw of (d, w) \<Rightarrow>
        (let w1 = request (Select_profile (map_option User_id (user w))) w
         in case resp of
              Inl err \<Rightarrow> (d, w1)
            | Inr data \<Rightarrow>
                (let d1 = d\<lparr>userProfile := Some data\<rparr>
                 in if truthy_str (payment_method data) then
                      (d1\<lparr>paymentMethod := the (payment_method data),
                          paymentDetails := payment_details data\<rparr>, w1)
                    else (d1, w1))))"

text \<open>
  \<open>fetchReferrals\<close>, which sends
  \<open>from('referrals').select('*').eq('user_id', user?.id).order('created_at', {ascending: false})\<close>;
  \<open>store\<close> gives the store's answer to a select on \<open>referrals\<close>.
\<close>

definition fetchReferrals ::
  "(referrals_select \<Rightarrow> PostgrestError + Referral list) \<Rightarrow>
   ReferrerDashboard_state \<times> world \<Rightarrow> ReferrerDashboard_state \<times> world" where
  "fetchReferrals store dw =
     (case dw of (d, w) \<Rightarrow>
        (let q = \<lparr>embed_profiles = False, eq_user_id = Some (map_option User_id (user w)),
                  order_created_at_ascending = Some False\<rparr>;
             w1 = request (Select_referrals q) w
         in case store q of
              Inr data \<Rightarrow> (d\<lparr>referrals := data, loading_referrals := False\<rparr>, w1)
            | Inl err \<Rightarrow>
                (d\<lparr>loading_referrals := False\<rparr>,
                 toast \<lparr>title = ''Error'', description = ''Failed to fetch referrals'',
                        variant = Destructive\<rparr> w1)))"

text \<open>
  \<open>handleAddReferral\<close>; \<open>ins\<close> is the error of the insert, if any, and \<open>store\<close> answers the
  select that \<open>fetchReferrals\<close> sends afterwards. (The earlier copy of the component sends
  the same insert without \<open>profile_id\<close>.)
\<close>

definition handleAddReferral ::
  "PostgrestError option \<Rightarrow> (referrals_select \<Rightarrow> PostgrestError + Referral list) \<Rightarrow>
   ReferrerDashboard_state \<times> world \<Rightarrow> ReferrerDashboard_state \<times> world" where
  "handleAddReferral ins store dw =
     (case dw of (d, w) \<Rightarrow>
        (let d1 = d\<lparr>isAdding := True\<rparr>;
             n = newReferral d;
             row = \<lparr>client_name = client_name n, client_email = client_email n,
                    client_phone = client_phone n, client_address = client_address n,
                    insert_user_id = map_option User_id (user w),
                    insert_profile_id = map_option profile_id (userProfile d)\<rparr>;
             w1 = request (Insert_referral row) w
         in case ins of
              Some err \<Rightarrow>
                (d1\<lparr>isAdding := False\<rparr>,
                 toast \<lparr>title = ''Error'', description = ''Failed to add referral'',
                        variant = Destructive\<rparr> w1)
            | None \<Rightarrow>
                (let w2 = toast \<lparr>title = ''Success'', description = ''Referral added successfully'',
                                 variant = Default\<rparr> w1;
                     d2 = d1\<lparr>newReferral := empty_newReferral\<rparr>
                 in case fetchReferrals store (d2, w2) of
                      (d3, w3) \<Rightarrow> (d3\<lparr>isAdding := False\<rparr>, w3))))"

text \<open>
  \<open>handleSavePaymentDetails\<close>; \<open>upd\<close> is the error of the update, if any, and \<open>fetched\<close> the
  answer to the select that \<open>fetchUserProfile\<close> sends.
\<close>

definition handleSavePaymentDetails ::
  "PostgrestError option \<Rightarrow> PostgrestError + Profile \<Rightarrow>
   ReferrerDashboard_state \<times> world \<Rightarrow> ReferrerDashboard_state \<times> world" where
  "handleSavePaymentDetails upd fetched dw =
     (case dw of (d, w) \<Rightarrow>
        (case userProfile d of
           None \<Rightarrow> (d, w)
         | Some p \<Rightarrow>
             if paymentMethod d = [] \<or> profile_id p = [] then (d, w)
             else
               (let d1 = d\<lparr>isSavingPayment := True\<rparr>;
                    w1 = request (Update_profile (profile_id p) (paymentMethod d) (paymentDetails d)) w
                in case upd of
                     Some err \<Rightarrow>
                       (d1\<lparr>isSavingPayment := False\<rparr>,
                        toast \<lparr>title = ''Error'', description = ''Failed to save payment details'',
                               variant = Destructive\<rparr> w1)
                   | None \<Rightarrow>
                       (let w2 = toast \<lparr>title = ''Success'',
                                        description = ''Payment details saved successfully'',
                                        variant = Default\<rparr> w1
                        in case fetchUserProfile fetched (d1, w2) of
                             (d3, w3) \<Rightarrow> (d3\<lparr>isSavingPayment := False\<rparr>, w3)))))"

text \<open>
  Pressing the submit button of the add-referral form. The button is disabled while
  \<open>isAdding\<close>; the browser does not send the submit event while the \<open>required\<close> input
  \<open>client_name\<close> is empty, nor while the \<open>type="email"\<close> input holds a non-empty value it
  does not accept (\<open>email_ok\<close> is the browser's test).
\<close>

definition submit_add_referral_form ::
  "(string \<Rightarrow> bool) \<Rightarrow> PostgrestError option \<Rightarrow>
   (referrals_select \<Rightarrow> PostgrestError + Referral list) \<Rightarrow>
   ReferrerDashboard_state \<times> world \<Rightarrow> ReferrerDashboard_state \<times> world" where
  "submit_add_referral_form email_ok ins store dw =
     (case dw of (d, w) \<Rightarrow>
        if isAdding d then (d, w)
        else if client_name (newReferral d) = [] then (d, w)
        else if client_email (newReferral d) \<noteq> [] \<and> \<not> email_ok (client_email (newReferral d))
          then (d, w)
        else handleAddReferral ins store (d, w))"

section \<open>The admin panel (AdminPanel)\<close>

text \<open>
  Of the panel's state, the parts its listing and its add-referral tab use; the edit
  dialog (\<open>editingReferral\<close>, \<open>isEditing\<close>) is left out. A listed referral carries the
  referrer's display name.
\<close>

record AdminUser =
  admin_user_id :: string
  admin_user_name :: string
  admin_user_email :: string

record AdminNewReferral = NewReferral +
  new_user_id :: string

record AdminPanel_state =
  users :: "AdminUser list"
  admin_referrals :: "(Referral \<times> string) list"
  admin_loading :: bool
  admin_newReferral :: AdminNewReferral
  admin_isAdding :: bool

definition empty_admin_newReferral :: AdminNewReferral where
  "empty_admin_newReferral =
     \<lparr>client_name = [], client_email = [], client_phone = [], client_address = [],
      new_user_id = []\<rparr>"

text \<open>
  The store's answer when the columns may embed \<open>profiles(user_id, name)\<close>: the rows of
  the select, each with the name the embedding finds for it (\<open>embedded\<close>, null when it
  finds none); the embedding drops no row.
\<close>

definition select_referrals_with_profiles ::
  "database \<Rightarrow> string option \<Rightarrow> (Referral \<Rightarrow> string option) \<Rightarrow> referrals_select \<Rightarrow>
   PostgrestError + (Referral \<times> string option) list" where
  "select_referrals_with_profiles db uid embedded q =
     (case select_referrals db uid q of
        Inl err \<Rightarrow> Inl err
      | Inr rows \<Rightarrow> Inr (map (\<lambda>r. (r, if embed_profiles q then embedded r else None)) rows))"

text \<open>
  \<open>fetchData\<close>; \<open>profilesData\<close> is the data of the select on \<open>profiles\<close> (null on an error,
  which is not looked at). The select on \<open>referrals\<close> embeds the profile, has no filter
  and orders by \<open>created_at\<close>, latest first; \<open>store\<close> gives the store's answer to it.
\<close>

definition fetchData ::
  "Profile list option \<Rightarrow>
   (referrals_select \<Rightarrow> PostgrestError + (Referral \<times> string option) list) \<Rightarrow>
   AdminPanel_state \<times> world \<Rightarrow> AdminPanel_state \<times> world" where
  "fetchData profilesData store aw =
     (case aw of (a, w) \<Rightarrow>
        (let w1 = request Select_profiles w;
             usersWithProfiles =
               (case profilesData of
                  Some ps \<Rightarrow>
                    map (\<lambda>p. \<lparr>admin_user_id = profile_user_id p, admin_user_name = profile_name p,
                               admin_user_email = []\<rparr>) ps
                | None \<Rightarrow> []);
             q = \<lparr>embed_profiles = True, eq_user_id = None,
                  order_created_at_ascending = Some False\<rparr>;
             w2 = request (Select_referrals q) w1
         in case store q of
              Inl err \<Rightarrow>
                (a\<lparr>admin_loading := False\<rparr>,
                 toast \<lparr>title = ''Error'', description = ''Failed to fetch data'',
                        variant = Destructive\<rparr> w2)
            | Inr referralsData \<Rightarrow>
                (a\<lparr>users := usersWithProfiles,
                   admin_referrals :=
                     map (\<lambda>(r, n). (r, if truthy_str n then the n else ''Unknown User''))
                       referralsData,
                   admin_loading := False\<rparr>, w2)))"

text \<open>
  The panel's \<open>handleAddReferral\<close>, which inserts \<open>newReferral\<close> as it is and then calls
  \<open>fetchData\<close>.
\<close>

definition handleAddReferral_admin ::
  "PostgrestError option \<Rightarrow> Profile list option \<Rightarrow>
   (referrals_select \<Rightarrow> PostgrestError + (Referral \<times> string option) list) \<Rightarrow>
   AdminPanel_state \<times> world \<Rightarrow> AdminPanel_state \<times> world" where
  "handleAddReferral_admin ins profilesData store aw =
     (case aw of (a, w) \<Rightarrow>
        (let a1 = a\<lparr>admin_isAdding := True\<rparr>;
             n = admin_newReferral a;
             row = \<lparr>client_name = client_name n, client_email = client_email n,
                    client_phone = client_phone n, client_address = client_address n,
                    insert_user_id = Some (new_user_id n), insert_profile_id = None\<rparr>;
             w1 = request (Insert_referral row) w
         in case ins of
              Some err \<Rightarrow>
                (a1\<lparr>admin_isAdding := False\<rparr>,
                 toast \<lparr>title = ''Error'', description = ''Failed to add referral'',
                        variant = Destructive\<rparr> w1)
            | None \<Rightarrow>
                (let w2 = toast \<lparr>title = ''Success'', description = ''Referral added successfully'',
                                 variant = Default\<rparr> w1;
                     a2 = a1\<lparr>admin_newReferral := empty_admin_newReferral\<rparr>
                 in case fetchData profilesData store (a2, w2) of
                      (a3, w3) \<Rightarrow> (a3\<lparr>admin_isAdding := False\<rparr>, w3))))"

text \<open>
  Clicking the panel's Add Referral button, which is
  \<open>disabled={isAdding || !newReferral.user_id || !newReferral.client_name}\<close>: a disabled
  button sends no click.
\<close>

definition click_add_referral_button ::
  "PostgrestError option \<Rightarrow> Profile list option \<Rightarrow>
   (referrals_select \<Rightarrow> PostgrestError + (Referral \<times> string option) list) \<Rightarrow>
   AdminPanel_state \<times> world \<Rightarrow> AdminPanel_state \<times> world" where
  "click_add_referral_button ins profilesData store aw =
     (case aw of (a, w) \<Rightarrow>
        if admin_isAdding a \<or> new_user_id (admin_newReferral a) = []
           \<or> client_name (admin_newReferral a) = [] then (a, w)
        else handleAddReferral_admin ins profilesData store (a, w))"

section \<open>Facts about the building blocks\<close>

lemmas adapter_defs = toast_def request_def setTimeout_def

lemma isRecoveryFlow_eq: "isRecoveryFlow w = isPasswordResetSession w"
  by (simp add: isRecoveryFlow_def isPasswordResetSession_def)

lemma listener_outside_recovery:
  "searchParams (onAuthStateChange_listener JSON_stringify False event sess w) = searchParams w
   \<and> calls (onAuthStateChange_listener JSON_stringify False event sess w) = calls w
   \<and> toasts (onAuthStateChange_listener JSON_stringify False event sess w) = toasts w
   \<and> localStorage (onAuthStateChange_listener JSON_stringify False event sess w) = localStorage w"
  by (simp add: onAuthStateChange_listener_def adapter_defs Let_def split: option.split)






lemma updatePassword_keeps_timers:
  "timers (snd (updatePassword JSON_parse err pwd w)) = timers w"
  by (simp add: updatePassword_def adapter_defs Let_def split: option.split)

text \<open>Every call of \<open>updatePassword\<close> shows a notification, so a world whose notifications
  did not change has seen no call of it.\<close>

lemma updatePassword_always_toasts:
  "length (toasts (snd (updatePassword JSON_parse err pwd w))) = Suc (length (toasts w))"
  by (simp add: updatePassword_def adapter_defs Let_def split: option.split)

lemma ResetPassword_step_no_indicators:
  assumes "\<not> isPasswordResetSession w" and "\<not> isSuccess v"
  shows "case ResetPassword_step JSON_parse JSON_stringify ev (v, w) of
           (v', w') \<Rightarrow>
             \<not> isSuccess v' \<and> searchParams w' = searchParams w \<and> calls w' = calls w
             \<and> toasts w' = toasts w \<and> localStorage w' = localStorage w"
proof (cases ev)
  case (Auth_change event sess)
  with assms show ?thesis
    using listener_outside_recovery [of JSON_stringify event sess w]
    by (simp add: ResetPassword_step_def ResetPassword_effect_def isRecoveryFlow_eq
          isPasswordResetSession_def Let_def)
next
  case (Change_password s)
  with assms show ?thesis
    by (simp add: ResetPassword_step_def ResetPassword_render_def)
next
  case (Change_confirmPassword s)
  with assms show ?thesis
    by (simp add: ResetPassword_step_def ResetPassword_render_def)
next
  case (Submit_form upd so)
  with assms show ?thesis
    by (simp add: ResetPassword_step_def ResetPassword_render_def)
qed

lemma ResetPassword_run_no_indicators:
  assumes "\<not> isPasswordResetSession w" and "\<not> isSuccess v"
  shows "case ResetPassword_run JSON_parse JSON_stringify evs (v, w) of
           (v', w') \<Rightarrow>
             \<not> isSuccess v' \<and> \<not> isPasswordResetSession w' \<and> calls w' = calls w
             \<and> toasts w' = toasts w \<and> localStorage w' = localStorage w"
  using assms
proof (induction evs arbitrary: v w)
  case Nil
  then show ?case by simp
next
  case (Cons ev evs)
  obtain v1 w1 where s: "ResetPassword_step JSON_parse JSON_stringify ev (v, w) = (v1, w1)"
    by (cases "ResetPassword_step JSON_parse JSON_stringify ev (v, w)")
  from ResetPassword_step_no_indicators [OF Cons.prems,
      where JSON_parse = JSON_parse and JSON_stringify = JSON_stringify and ev = ev] s
  have k: "\<not> isSuccess v1" "searchParams w1 = searchParams w" "calls w1 = calls w"
    "toasts w1 = toasts w" "localStorage w1 = localStorage w"
    by simp_all
  from k(2) Cons.prems(1) have n: "\<not> isPasswordResetSession w1"
    by (simp add: isPasswordResetSession_def)
  from Cons.IH [OF n k(1)] s k show ?case
    by (simp add: case_prod_beta)
qed

lemma set_order_created_at_desc: "set (order_created_at_desc rs) = set rs"
  by (simp add: order_created_at_desc_def)

lemma set_order_rows: "set (order_rows ascending rs) = set rs"
  by (simp add: order_rows_def set_order_created_at_desc split: option.split bool.split)

lemma mset_order_created_at_desc: "mset (order_created_at_desc rs) = mset rs"
  by (simp add: order_created_at_desc_def)

lemma sorted_order_created_at_desc:
  "sorted_wrt (\<lambda>a b. created_at b \<le> created_at a) (order_created_at_desc rs)"
proof -
  have "sorted (map created_at (sort_key created_at rs))"
    by (rule sorted_sort_key)
  then have "sorted_wrt (\<lambda>a b. created_at a \<le> created_at b) (sort_key created_at rs)"
    by (simp add: sorted_map)
  then show ?thesis
    by (simp add: order_created_at_desc_def sorted_wrt_rev)
qed

lemma referrals_visible_not_admin:
  "\<not> has_role db uid ''admin'' \<Longrightarrow> r \<in> set (referrals_visible db uid) \<Longrightarrow> uid = Some (user_id r)"
  by (simp add: referrals_visible_def Users_can_view_their_own_referrals_def
        Admins_can_view_all_referrals_def)

lemma referrals_visible_admin:
  "has_role db uid ''admin'' \<Longrightarrow> referrals_visible db uid = referrals_table db"
  by (simp add: referrals_visible_def Admins_can_view_all_referrals_def)

lemma fetchReferrals_own:
  assumes "user w = Some u"
  shows "fetchReferrals (select_referrals db (Some (User_id u))) (d, w) =
    (d\<lparr>referrals :=
         order_created_at_desc (filter (\<lambda>r. user_id r = User_id u) (referrals_table db)),
       loading_referrals := False\<rparr>,
     w\<lparr>calls := calls w @
          [Select_referrals \<lparr>embed_profiles = False, eq_user_id = Some (Some (User_id u)),
                             order_created_at_ascending = Some False\<rparr>]\<rparr>)"
proof -
  have "filter (\<lambda>r. user_id r = User_id u) (referrals_visible db (Some (User_id u))) =
        filter (\<lambda>r. user_id r = User_id u) (referrals_table db)"
    by (auto simp add: referrals_visible_def Users_can_view_their_own_referrals_def
          intro: filter_cong)
  with assms show ?thesis
    by (simp add: fetchReferrals_def select_referrals_def order_rows_def request_def Let_def)
qed

lemma fetchData_admin:
  assumes "has_role db uid ''admin''"
  shows "map fst (admin_referrals (fst (fetchData profilesData
            (select_referrals_with_profiles db uid embedded) (a, w)))) =
         order_created_at_desc (referrals_table db)"
    and "calls (snd (fetchData profilesData
            (select_referrals_with_profiles db uid embedded) (a, w))) =
         calls w @ [Select_profiles,
                    Select_referrals \<lparr>embed_profiles = True, eq_user_id = None,
                                       order_created_at_ascending = Some False\<rparr>]"
  using assms
  by (simp_all add: fetchData_def select_referrals_with_profiles_def select_referrals_def
        order_rows_def referrals_visible_admin request_def Let_def comp_def case_prod_beta)

text \<open>The form does reach the insert when the name is filled in.\<close>

lemma submit_with_client_name:
  "\<not> isAdding d \<Longrightarrow> client_name (newReferral d) \<noteq> [] \<Longrightarrow> client_email (newReferral d) = [] \<Longrightarrow>
   submit_add_referral_form email_ok ins store (d, w) = handleAddReferral ins store (d, w)"
  by (simp add: submit_add_referral_form_def)

section \<open>The recovery callback\<close>

text \<open>
  Claim C1, as the specification states it, fails on the code in two places. A query
  parameter that is present with an empty value (\<open>?access_token=\<close>) is not a recovery
  indicator for the adapter, since \<open>urlParams.get\<close> then returns the empty string, which
  is falsy: a \<open>SIGNED_IN\<close> event on such a URL sets the adapter's session. And on a URL
  with \<open>type=recovery\<close> an event other than \<open>SIGNED_IN\<close> that carries a session
  (\<open>PASSWORD_RECOVERY\<close>) sets the adapter's session, so it does not hold that no session
  is ever established after landing on a recovery link.
\<close>

theorem recovery_SIGNED_IN_counterexample:
  "searchParams (AuthProvider_init ''https://app.test'' ''/'' ''?access_token=''
       [''access_token'' \<mapsto> []] Map.empty) ''access_token'' \<noteq> None
   \<and> session (onAuthStateChange_listener (\<lambda>s. ''null'')
        (isRecoveryFlow (AuthProvider_init ''https://app.test'' ''/'' ''?access_token=''
           [''access_token'' \<mapsto> []] Map.empty))
        SIGNED_IN
        (Some \<lparr>access_token = ''at'', refresh_token = ''rt'',
               Session_user = \<lparr>User_id = ''u1'', email = ''a@b.c''\<rparr>\<rparr>)
        (AuthProvider_init ''https://app.test'' ''/'' ''?access_token=''
           [''access_token'' \<mapsto> []] Map.empty))
     = Some \<lparr>access_token = ''at'', refresh_token = ''rt'',
             Session_user = \<lparr>User_id = ''u1'', email = ''a@b.c''\<rparr>\<rparr>
   \<and> session (onAuthStateChange_listener (\<lambda>s. ''null'')
        (isRecoveryFlow (AuthProvider_init ''https://app.test'' ''/reset-password'' ''?type=recovery''
           [''type'' \<mapsto> ''recovery''] Map.empty))
        PASSWORD_RECOVERY
        (Some \<lparr>access_token = ''at'', refresh_token = ''rt'',
               Session_user = \<lparr>User_id = ''u1'', email = ''a@b.c''\<rparr>\<rparr>)
        (AuthProvider_init ''https://app.test'' ''/reset-password'' ''?type=recovery''
           [''type'' \<mapsto> ''recovery''] Map.empty))
     = Some \<lparr>access_token = ''at'', refresh_token = ''rt'',
             Session_user = \<lparr>User_id = ''u1'', email = ''a@b.c''\<rparr>\<rparr>"
  by (simp add: onAuthStateChange_listener_def isRecoveryFlow_def AuthProvider_init_def adapter_defs)

text \<open>
  Claim C1, amended: when the adapter was mounted on a URL whose query has
  \<open>type=recovery\<close>, or an \<open>access_token\<close> or \<open>refresh_token\<close> parameter with a non-empty
  value, a \<open>SIGNED_IN\<close> event leaves the adapter's \<open>user\<close>, \<open>session\<close> and \<open>userRole\<close> as
  they were; the delivered session is written, serialised, to the local-storage key
  \<open>recovery_session\<close>, the provider's \<open>signOut\<close> is the one request sent, and the browser
  is sent to \<open>/reset-password\<close> followed by the query string.
\<close>

theorem recovery_SIGNED_IN_intercepted:
  assumes "searchParams w ''type'' = Some ''recovery''
           \<or> (\<exists>t. searchParams w ''access_token'' = Some t \<and> t \<noteq> [])
           \<or> (\<exists>t. searchParams w ''refresh_token'' = Some t \<and> t \<noteq> [])"
  shows "user (onAuthStateChange_listener JSON_stringify (isRecoveryFlow w) SIGNED_IN sess w) = user w
    \<and> session (onAuthStateChange_listener JSON_stringify (isRecoveryFlow w) SIGNED_IN sess w) = session w
    \<and> userRole (onAuthStateChange_listener JSON_stringify (isRecoveryFlow w) SIGNED_IN sess w) = userRole w
    \<and> localStorage (onAuthStateChange_listener JSON_stringify (isRecoveryFlow w) SIGNED_IN sess w) =
        (localStorage w)(''recovery_session'' \<mapsto> JSON_stringify sess)
    \<and> calls (onAuthStateChange_listener JSON_stringify (isRecoveryFlow w) SIGNED_IN sess w) =
        calls w @ [Auth_signOut]
    \<and> href (onAuthStateChange_listener JSON_stringify (isRecoveryFlow w) SIGNED_IN sess w) =
        ''/reset-password'' @ search w"
proof -
  from assms have "isRecoveryFlow w"
    by (auto simp add: isRecoveryFlow_def)
  then show ?thesis
    by (simp add: onAuthStateChange_listener_def request_def Let_def)
qed

theorem recovery_SIGNED_IN_intercepted_witness:
  "session (onAuthStateChange_listener (\<lambda>s. ''S'')
        (isRecoveryFlow (AuthProvider_init ''https://app.test'' ''/'' ''?type=recovery''
           [''type'' \<mapsto> ''recovery''] Map.empty))
        SIGNED_IN
        (Some \<lparr>access_token = ''at'', refresh_token = ''rt'',
               Session_user = \<lparr>User_id = ''u1'', email = ''a@b.c''\<rparr>\<rparr>)
        (AuthProvider_init ''https://app.test'' ''/'' ''?type=recovery''
           [''type'' \<mapsto> ''recovery''] Map.empty)) = None
   \<and> href (onAuthStateChange_listener (\<lambda>s. ''S'')
        (isRecoveryFlow (AuthProvider_init ''https://app.test'' ''/'' ''?type=recovery''
           [''type'' \<mapsto> ''recovery''] Map.empty))
        SIGNED_IN
        (Some \<lparr>access_token = ''at'', refresh_token = ''rt'',
               Session_user = \<lparr>User_id = ''u1'', email = ''a@b.c''\<rparr>\<rparr>)
        (AuthProvider_init ''https://app.test'' ''/'' ''?type=recovery''
           [''type'' \<mapsto> ''recovery''] Map.empty)) = ''/reset-password?type=recovery''"
  using recovery_SIGNED_IN_intercepted [of
      "AuthProvider_init ''https://app.test'' ''/'' ''?type=recovery'' [''type'' \<mapsto> ''recovery''] Map.empty"
      "\<lambda>s. ''S''"
      "Some \<lparr>access_token = ''at'', refresh_token = ''rt'',
               Session_user = \<lparr>User_id = ''u1'', email = ''a@b.c''\<rparr>\<rparr>"]
  by (simp add: AuthProvider_init_def)

section \<open>Signing up and signing out\<close>

text \<open>
  Claim C3: when the provider answers \<open>signUp\<close> with a user and no session, \<open>signUp\<close>
  returns the error whose message is "You already have an account with this email.
  Please sign in instead." and shows one destructive notification, titled "Account
  already exists", with that message.
\<close>

theorem signUp_existing_account:
  "fst (signUp mail pwd name (AuthData (Some u) None) w) =
     Some (AuthError ''You already have an account with this email. Please sign in instead.'')
   \<and> toasts (snd (signUp mail pwd name (AuthData (Some u) None) w)) =
     toasts w @ [\<lparr>title = ''Account already exists'',
                  description = ''You already have an account with this email. Please sign in instead.'',
                  variant = Destructive\<rparr>]"
  by (simp add: signUp_def adapter_defs Let_def)

theorem signUp_existing_account_witness:
  "fst (signUp ''a@b.c'' ''secret1'' ''Ann''
          (AuthData (Some \<lparr>User_id = ''u1'', email = ''a@b.c''\<rparr>) None)
          (AuthProvider_init ''https://app.test'' ''/auth'' [] Map.empty Map.empty)) =
     Some (AuthError ''You already have an account with this email. Please sign in instead.'')"
  using signUp_existing_account [of "''a@b.c''" "''secret1''" "''Ann''"
      "\<lparr>User_id = ''u1'', email = ''a@b.c''\<rparr>"
      "AuthProvider_init ''https://app.test'' ''/auth'' [] Map.empty Map.empty"]
  by simp

text \<open>
  Claim C10: when \<open>signOut\<close> returns, the adapter's \<open>user\<close>, \<open>session\<close> and \<open>userRole\<close> are
  null, whatever the provider answered to the sign-out request.
\<close>

theorem signOut_clears_adapter_state:
  "user (signOut err w) = None \<and> session (signOut err w) = None \<and> userRole (signOut err w) = None"
  by (simp add: signOut_def request_def)

theorem signOut_clears_adapter_state_witness:
  "user (signOut (Some (AuthError ''Failed to fetch''))
      ((AuthProvider_init ''https://app.test'' ''/'' [] Map.empty Map.empty)
         \<lparr>user := Some \<lparr>User_id = ''u1'', email = ''a@b.c''\<rparr>,
          session := Some \<lparr>access_token = ''at'', refresh_token = ''rt'',
                           Session_user = \<lparr>User_id = ''u1'', email = ''a@b.c''\<rparr>\<rparr>,
          userRole := Some ''referrer''\<rparr>)) = None"
  using signOut_clears_adapter_state [of "Some (AuthError ''Failed to fetch'')"]
  by simp

section \<open>Updating the password\<close>




section \<open>The reset-password view\<close>

text \<open>
  Claim C4: when the two passwords entered agree, have at least six characters, and
  \<open>updatePassword\<close> returns no error, \<open>handlePasswordReset\<close> marks the reset successful,
  signs the user out (the sign-out request follows the requests of \<open>updatePassword\<close>, and
  the adapter's \<open>user\<close>, \<open>session\<close> and \<open>userRole\<close> are null) and starts a timer of 3000
  milliseconds that sends the browser to \<open>/auth\<close>.
\<close>

theorem handlePasswordReset_success:
  assumes "password v = confirmPassword v"
    and "6 \<le> length (password v)"
    and "fst (updatePassword JSON_parse upd (password v) w) = None"
  shows "case handlePasswordReset JSON_parse upd so (v, w) of
           (v', w') \<Rightarrow>
             isSuccess v' \<and> user w' = None \<and> session w' = None \<and> userRole w' = None
             \<and> calls w' = calls (snd (updatePassword JSON_parse upd (password v) w)) @ [Auth_signOut]
             \<and> timers w' = timers w @ [(3000, Redirect ''/auth'')]
             \<and> href (fire threw role (Redirect ''/auth'') w') = ''/auth''"
proof -
  obtain w1 where u: "updatePassword JSON_parse upd (password v) w = (None, w1)"
    using assms(3) by (cases "updatePassword JSON_parse upd (password v) w") simp
  have t: "timers w1 = timers w"
    using updatePassword_keeps_timers [of JSON_parse upd "password v" w] u by simp
  show ?thesis
    using assms(1,2) u t
    by (simp add: handlePasswordReset_def signOut_def request_def setTimeout_def Let_def)
qed

theorem handlePasswordReset_success_witness:
  "isSuccess (fst (handlePasswordReset
       (\<lambda>s. if s = ''S'' then Some (JObj [(''access_token'', JStr ''at''),
                                            (''refresh_token'', JStr ''rt'')]) else None)
       None (Some (AuthError ''Failed to fetch''))
       (ResetPassword_init\<lparr>password := ''secret1'', confirmPassword := ''secret1''\<rparr>,
        AuthProvider_init ''https://app.test'' ''/reset-password'' ''?type=recovery''
          [''type'' \<mapsto> ''recovery''] [''recovery_session'' \<mapsto> ''S''])))
   \<and> calls (snd (handlePasswordReset
       (\<lambda>s. if s = ''S'' then Some (JObj [(''access_token'', JStr ''at''),
                                            (''refresh_token'', JStr ''rt'')]) else None)
       None (Some (AuthError ''Failed to fetch''))
       (ResetPassword_init\<lparr>password := ''secret1'', confirmPassword := ''secret1''\<rparr>,
        AuthProvider_init ''https://app.test'' ''/reset-password'' ''?type=recovery''
          [''type'' \<mapsto> ''recovery''] [''recovery_session'' \<mapsto> ''S''])))
     = [Auth_setSession (JStr ''at'') (JStr ''rt''), Auth_updateUser ''secret1'', Auth_signOut]
   \<and> timers (snd (handlePasswordReset
       (\<lambda>s. if s = ''S'' then Some (JObj [(''access_token'', JStr ''at''),
                                            (''refresh_token'', JStr ''rt'')]) else None)
       None (Some (AuthError ''Failed to fetch''))
       (ResetPassword_init\<lparr>password := ''secret1'', confirmPassword := ''secret1''\<rparr>,
        AuthProvider_init ''https://app.test'' ''/reset-password'' ''?type=recovery''
          [''type'' \<mapsto> ''recovery''] [''recovery_session'' \<mapsto> ''S''])))
     = [(3000, Redirect ''/auth'')]"
  using handlePasswordReset_success [where
      v = "ResetPassword_init\<lparr>password := ''secret1'', confirmPassword := ''secret1''\<rparr>"
      and JSON_parse = "\<lambda>s. if s = ''S'' then Some (JObj [(''access_token'', JStr ''at''),
                                           (''refresh_token'', JStr ''rt'')]) else None"
      and upd = None
      and w = "AuthProvider_init ''https://app.test'' ''/reset-password'' ''?type=recovery''
          [''type'' \<mapsto> ''recovery''] [''recovery_session'' \<mapsto> ''S'']"
      and so = "Some (AuthError ''Failed to fetch'')"]
  by (simp add: ResetPassword_init_def AuthProvider_init_def updatePassword_def
        read_recovery_session_def sessionToUse_has_token_def adapter_defs case_prod_beta)

text \<open>
  Claim C6, as the specification states it, fails on the code: on a URL with no
  recovery indicator, a signed-in user is not shown the invalid-link state but is sent
  to the main page.
\<close>

theorem ResetPassword_gate_counterexample:
  "searchParams ((AuthProvider_init ''https://app.test'' ''/reset-password'' [] Map.empty Map.empty)
       \<lparr>user := Some \<lparr>User_id = ''u1'', email = ''a@b.c''\<rparr>\<rparr>) = Map.empty
   \<and> ResetPassword_render
       (ResetPassword_effect ResetPassword_init
          ((AuthProvider_init ''https://app.test'' ''/reset-password'' [] Map.empty Map.empty)
             \<lparr>user := Some \<lparr>User_id = ''u1'', email = ''a@b.c''\<rparr>\<rparr>))
       ((AuthProvider_init ''https://app.test'' ''/reset-password'' [] Map.empty Map.empty)
          \<lparr>user := Some \<lparr>User_id = ''u1'', email = ''a@b.c''\<rparr>\<rparr>) = Navigate_home"
  by (simp add: ResetPassword_render_def ResetPassword_effect_def ResetPassword_init_def
        isPasswordResetSession_def AuthProvider_init_def)

text \<open>
  Claim C6, amended: the view renders the password form only when the query has
  \<open>type=recovery\<close>, or a non-empty \<open>access_token\<close> or \<open>refresh_token\<close>. On a URL with none
  of these, whatever the user does in the view and whatever auth state changes arrive,
  the view shows the invalid-link state while no user is signed in and redirects to the
  main page while one is; no request is sent, no notification is shown and local
  storage is not touched, so \<open>updatePassword\<close>, which always shows a notification, is
  never invoked.
\<close>

theorem ResetPassword_gate:
  "(ResetPassword_render v w = Password_form \<longrightarrow>
      searchParams w ''type'' = Some ''recovery''
      \<or> truthy_str (searchParams w ''access_token'')
      \<or> truthy_str (searchParams w ''refresh_token''))
   \<and> (searchParams w ''type'' \<noteq> Some ''recovery''
        \<and> \<not> truthy_str (searchParams w ''access_token'')
        \<and> \<not> truthy_str (searchParams w ''refresh_token'') \<longrightarrow>
      (case ResetPassword_run JSON_parse JSON_stringify evs
              (ResetPassword_effect ResetPassword_init w, w) of
         (v', w') \<Rightarrow>
           ResetPassword_render v' w' = (if user w' = None then Invalid_link else Navigate_home)
           \<and> calls w' = calls w \<and> toasts w' = toasts w \<and> localStorage w' = localStorage w))"
proof (rule conjI)
  show "ResetPassword_render v w = Password_form \<longrightarrow>
      searchParams w ''type'' = Some ''recovery''
      \<or> truthy_str (searchParams w ''access_token'')
      \<or> truthy_str (searchParams w ''refresh_token'')"
    by (simp add: ResetPassword_render_def isPasswordResetSession_def split: if_splits)
next
  show "searchParams w ''type'' \<noteq> Some ''recovery''
        \<and> \<not> truthy_str (searchParams w ''access_token'')
        \<and> \<not> truthy_str (searchParams w ''refresh_token'') \<longrightarrow>
      (case ResetPassword_run JSON_parse JSON_stringify evs
              (ResetPassword_effect ResetPassword_init w, w) of
         (v', w') \<Rightarrow>
           ResetPassword_render v' w' = (if user w' = None then Invalid_link else Navigate_home)
           \<and> calls w' = calls w \<and> toasts w' = toasts w \<and> localStorage w' = localStorage w)"
  proof (rule impI)
    assume "searchParams w ''type'' \<noteq> Some ''recovery''
        \<and> \<not> truthy_str (searchParams w ''access_token'')
        \<and> \<not> truthy_str (searchParams w ''refresh_token'')"
    then have n: "\<not> isPasswordResetSession w"
      by (simp add: isPasswordResetSession_def)
    have i: "\<not> isSuccess (ResetPassword_effect ResetPassword_init w)"
      by (simp add: ResetPassword_effect_def ResetPassword_init_def)
    from ResetPassword_run_no_indicators [OF n i, of JSON_parse JSON_stringify evs]
    show "case ResetPassword_run JSON_parse JSON_stringify evs
              (ResetPassword_effect ResetPassword_init w, w) of
         (v', w') \<Rightarrow>
           ResetPassword_render v' w' = (if user w' = None then Invalid_link else Navigate_home)
           \<and> calls w' = calls w \<and> toasts w' = toasts w \<and> localStorage w' = localStorage w"
      by (auto simp add: case_prod_beta ResetPassword_render_def)
  qed
qed

theorem ResetPassword_gate_witness:
  "ResetPassword_render
     (fst (ResetPassword_run (\<lambda>s. None) (\<lambda>s. ''null'')
        [Change_password ''secret1'', Change_confirmPassword ''secret1'', Submit_form None None]
        (ResetPassword_effect ResetPassword_init
           (AuthProvider_init ''https://app.test'' ''/reset-password'' [] Map.empty Map.empty),
         AuthProvider_init ''https://app.test'' ''/reset-password'' [] Map.empty Map.empty)))
     (snd (ResetPassword_run (\<lambda>s. None) (\<lambda>s. ''null'')
        [Change_password ''secret1'', Change_confirmPassword ''secret1'', Submit_form None None]
        (ResetPassword_effect ResetPassword_init
           (AuthProvider_init ''https://app.test'' ''/reset-password'' [] Map.empty Map.empty),
         AuthProvider_init ''https://app.test'' ''/reset-password'' [] Map.empty Map.empty)))
   = Invalid_link
   \<and> calls (snd (ResetPassword_run (\<lambda>s. None) (\<lambda>s. ''null'')
        [Change_password ''secret1'', Change_confirmPassword ''secret1'', Submit_form None None]
        (ResetPassword_effect ResetPassword_init
           (AuthProvider_init ''https://app.test'' ''/reset-password'' [] Map.empty Map.empty),
         AuthProvider_init ''https://app.test'' ''/reset-password'' [] Map.empty Map.empty))) = []"
  using ResetPassword_gate [where v = ResetPassword_init
      and w = "AuthProvider_init ''https://app.test'' ''/reset-password'' [] Map.empty Map.empty"
      and JSON_parse = "\<lambda>s. None" and JSON_stringify = "\<lambda>s. ''null''"
      and evs = "[Change_password ''secret1'', Change_confirmPassword ''secret1'',
                  Submit_form None None]"]
  by (simp add: AuthProvider_init_def case_prod_beta ResetPassword_step_def
        ResetPassword_render_def ResetPassword_effect_def ResetPassword_init_def
        isPasswordResetSession_def)

section \<open>Listing referrals\<close>

text \<open>
  Claim C5: for a signed-in referrer \<open>u\<close>, whose requests the store sees as coming from
  \<open>u\<close>, \<open>fetchReferrals\<close> sends one select, filtered on \<open>user_id\<close> equal to the referrer's
  id and ordered by \<open>created_at\<close> descending, and the list it stores from the store's
  answer to that select holds exactly the rows of the table whose \<open>user_id\<close> is the
  referrer's id, latest \<open>created_at\<close> first. By the row-level policies alone, whatever
  the client asks for, a caller who is not an admin is shown only rows whose \<open>user_id\<close> is
  the caller's id. For an admin, the panel's \<open>fetchData\<close> sends a select with no filter,
  ordered by \<open>created_at\<close> descending, and the listing it stores from the store's answer
  holds every row of the table, latest first.
\<close>

theorem referral_listing:
  "(user w = Some u \<longrightarrow>
      (case fetchReferrals (select_referrals db (Some (User_id u))) (d, w) of
         (d', w') \<Rightarrow>
           calls w' = calls w @
             [Select_referrals \<lparr>embed_profiles = False, eq_user_id = Some (Some (User_id u)),
                                order_created_at_ascending = Some False\<rparr>]
           \<and> (\<forall>r \<in> set (referrals d'). user_id r = User_id u)
           \<and> set (referrals d') = {r \<in> set (referrals_table db). user_id r = User_id u}
           \<and> sorted_wrt (\<lambda>x y. created_at y \<le> created_at x) (referrals d')))
   \<and> (\<not> has_role db uid ''admin'' \<longrightarrow>
        (\<forall>q rows. select_referrals db uid q = Inr rows \<longrightarrow>
           (\<forall>r \<in> set rows. uid = Some (user_id r)))
        \<and> (\<forall>r \<in> set (referrals_visible db uid). uid = Some (user_id r)))
   \<and> (has_role db aid ''admin'' \<longrightarrow>
        (case fetchData profilesData (select_referrals_with_profiles db aid embedded) (a, w) of
           (a', w') \<Rightarrow>
             calls w' = calls w @
               [Select_profiles,
                Select_referrals \<lparr>embed_profiles = True, eq_user_id = None,
                                   order_created_at_ascending = Some False\<rparr>]
             \<and> mset (map fst (admin_referrals a')) = mset (referrals_table db)
             \<and> sorted_wrt (\<lambda>x y. created_at y \<le> created_at x) (map fst (admin_referrals a'))))"
proof (intro conjI impI)
  assume u: "user w = Some u"
  show "case fetchReferrals (select_referrals db (Some (User_id u))) (d, w) of
         (d', w') \<Rightarrow>
           calls w' = calls w @
             [Select_referrals \<lparr>embed_profiles = False, eq_user_id = Some (Some (User_id u)),
                                order_created_at_ascending = Some False\<rparr>]
           \<and> (\<forall>r \<in> set (referrals d'). user_id r = User_id u)
           \<and> set (referrals d') = {r \<in> set (referrals_table db). user_id r = User_id u}
           \<and> sorted_wrt (\<lambda>x y. created_at y \<le> created_at x) (referrals d')"
    by (simp add: fetchReferrals_own [OF u] set_order_created_at_desc
          sorted_order_created_at_desc)
next
  assume n: "\<not> has_role db uid ''admin''"
  show "\<forall>q rows. select_referrals db uid q = Inr rows \<longrightarrow>
           (\<forall>r \<in> set rows. uid = Some (user_id r))"
  proof (intro allI impI ballI)
    fix q rows r
    assume "select_referrals db uid q = Inr rows" and "r \<in> set rows"
    then have "r \<in> set (referrals_visible db uid)"
      by (auto simp add: select_referrals_def set_order_rows split: option.splits)
    with n show "uid = Some (user_id r)"
      by (rule referrals_visible_not_admin)
  qed
next
  assume "\<not> has_role db uid ''admin''"
  then show "\<forall>r \<in> set (referrals_visible db uid). uid = Some (user_id r)"
    by (blast dest: referrals_visible_not_admin)
next
  assume "has_role db aid ''admin''"
  then show "case fetchData profilesData (select_referrals_with_profiles db aid embedded) (a, w) of
           (a', w') \<Rightarrow>
             calls w' = calls w @
               [Select_profiles,
                Select_referrals \<lparr>embed_profiles = True, eq_user_id = None,
                                   order_created_at_ascending = Some False\<rparr>]
             \<and> mset (map fst (admin_referrals a')) = mset (referrals_table db)
             \<and> sorted_wrt (\<lambda>x y. created_at y \<le> created_at x) (map fst (admin_referrals a'))"
    using fetchData_admin [of db aid profilesData embedded a w]
    by (simp add: case_prod_beta mset_order_created_at_desc sorted_order_created_at_desc
          del: mset_map)
qed

theorem referral_listing_witness:
  "map referral_id (referrals (fst (fetchReferrals
      (select_referrals
         \<lparr>referrals_table =
           [\<lparr>client_name = ''Ann'', client_email = [], client_phone = [], client_address = [],
            referral_id = ''r1'', user_id = ''u1'', stage = ''Referred Connection'',
            bonus_status = ''Pending'', referral_notes = [], created_at = 1\<rparr>,
            \<lparr>client_name = ''Bob'', client_email = [], client_phone = [], client_address = [],
            referral_id = ''r2'', user_id = ''u2'', stage = ''Client Signed'',
            bonus_status = ''Pending'', referral_notes = [], created_at = 2\<rparr>,
            \<lparr>client_name = ''Cy'', client_email = [], client_phone = [], client_address = [],
            referral_id = ''r3'', user_id = ''u1'', stage = ''Solar Installed'',
            bonus_status = ''Paid'', referral_notes = [], created_at = 3\<rparr>],
         user_roles_table = [(''u1'', ''referrer''), (''u2'', ''referrer''), (''a1'', ''admin'')],
         profiles_table = []\<rparr>
         (Some ''u1''))
      (ReferrerDashboard_init,
       (AuthProvider_init ''https://app.test'' ''/'' [] Map.empty Map.empty)
           \<lparr>user := Some \<lparr>User_id = ''u1'', email = ''a@b.c''\<rparr>\<rparr>)))) = [''r3'', ''r1'']
   \<and> map referral_id (referrals_visible
         \<lparr>referrals_table =
           [\<lparr>client_name = ''Ann'', client_email = [], client_phone = [], client_address = [],
            referral_id = ''r1'', user_id = ''u1'', stage = ''Referred Connection'',
            bonus_status = ''Pending'', referral_notes = [], created_at = 1\<rparr>,
            \<lparr>client_name = ''Bob'', client_email = [], client_phone = [], client_address = [],
            referral_id = ''r2'', user_id = ''u2'', stage = ''Client Signed'',
            bonus_status = ''Pending'', referral_notes = [], created_at = 2\<rparr>,
            \<lparr>client_name = ''Cy'', client_email = [], client_phone = [], client_address = [],
            referral_id = ''r3'', user_id = ''u1'', stage = ''Solar Installed'',
            bonus_status = ''Paid'', referral_notes = [], created_at = 3\<rparr>],
         user_roles_table = [(''u1'', ''referrer''), (''u2'', ''referrer''), (''a1'', ''admin'')],
         profiles_table = []\<rparr>
         (Some ''u2'')) = [''r2'']
   \<and> map (referral_id \<circ> fst) (admin_referrals (fst (fetchData None
      (select_referrals_with_profiles
         \<lparr>referrals_table =
           [\<lparr>client_name = ''Ann'', client_email = [], client_phone = [], client_address = [],
            referral_id = ''r1'', user_id = ''u1'', stage = ''Referred Connection'',
            bonus_status = ''Pending'', referral_notes = [], created_at = 1\<rparr>,
            \<lparr>client_name = ''Bob'', client_email = [], client_phone = [], client_address = [],
            referral_id = ''r2'', user_id = ''u2'', stage = ''Client Signed'',
            bonus_status = ''Pending'', referral_notes = [], created_at = 2\<rparr>,
            \<lparr>client_name = ''Cy'', client_email = [], client_phone = [], client_address = [],
            referral_id = ''r3'', user_id = ''u1'', stage = ''Solar Installed'',
            bonus_status = ''Paid'', referral_notes = [], created_at = 3\<rparr>],
         user_roles_table = [(''u1'', ''referrer''), (''u2'', ''referrer''), (''a1'', ''admin'')],
         profiles_table = []\<rparr>
         (Some ''a1'') (\<lambda>r. None))
      (\<lparr>users = [], admin_referrals = [], admin_loading = True,
           admin_newReferral = empty_admin_newReferral, admin_isAdding = False\<rparr>,
       (AuthProvider_init ''https://app.test'' ''/'' [] Map.empty Map.empty)
           \<lparr>user := Some \<lparr>User_id = ''u1'', email = ''a@b.c''\<rparr>\<rparr>)))) = [''r3'', ''r2'', ''r1'']"
  using referral_listing [where
      w = "(AuthProvider_init ''https://app.test'' ''/'' [] Map.empty Map.empty)
           \<lparr>user := Some \<lparr>User_id = ''u1'', email = ''a@b.c''\<rparr>\<rparr>"
      and u = "\<lparr>User_id = ''u1'', email = ''a@b.c''\<rparr>"
      and db = "\<lparr>referrals_table =
           [\<lparr>client_name = ''Ann'', client_email = [], client_phone = [], client_address = [],
            referral_id = ''r1'', user_id = ''u1'', stage = ''Referred Connection'',
            bonus_status = ''Pending'', referral_notes = [], created_at = 1\<rparr>,
            \<lparr>client_name = ''Bob'', client_email = [], client_phone = [], client_address = [],
            referral_id = ''r2'', user_id = ''u2'', stage = ''Client Signed'',
            bonus_status = ''Pending'', referral_notes = [], created_at = 2\<rparr>,
            \<lparr>client_name = ''Cy'', client_email = [], client_phone = [], client_address = [],
            referral_id = ''r3'', user_id = ''u1'', stage = ''Solar Installed'',
            bonus_status = ''Paid'', referral_notes = [], created_at = 3\<rparr>],
         user_roles_table = [(''u1'', ''referrer''), (''u2'', ''referrer''), (''a1'', ''admin'')],
         profiles_table = []\<rparr>"
      and d = ReferrerDashboard_init and uid = "Some ''u2''" and aid = "Some ''a1''"
      and profilesData = None and embedded = "\<lambda>r. None"
      and a = "\<lparr>users = [], admin_referrals = [], admin_loading = True,
           admin_newReferral = empty_admin_newReferral, admin_isAdding = False\<rparr>"]
  by (simp add: AuthProvider_init_def fetchReferrals_def fetchData_def
        select_referrals_def order_rows_def select_referrals_with_profiles_def
        referrals_visible_def Users_can_view_their_own_referrals_def
        Admins_can_view_all_referrals_def has_role_def order_created_at_desc_def
        request_def Let_def)

section \<open>Creating a referral\<close>

text \<open>
  Claim C7: while the client name is empty, submitting the referrer's add-referral form
  changes nothing and sends nothing, since the browser holds back the submit event of a
  form whose \<open>required\<close> input is empty; and clicking the admin panel's Add Referral
  button changes nothing and sends nothing while the client name or the selected user
  is empty, since the button is then disabled.
\<close>

theorem empty_client_name_rejected:
  "(client_name (newReferral d) = [] \<longrightarrow>
      submit_add_referral_form email_ok ins store (d, w) = (d, w))
   \<and> (client_name (admin_newReferral a) = [] \<or> new_user_id (admin_newReferral a) = [] \<longrightarrow>
      click_add_referral_button ins' profilesData store' (a, w) = (a, w))"
  by (simp add: submit_add_referral_form_def click_add_referral_button_def)

theorem empty_client_name_rejected_witness:
  "calls (snd (submit_add_referral_form (\<lambda>s. True) None (\<lambda>q. Inr [])
      (ReferrerDashboard_init\<lparr>newReferral := empty_newReferral\<lparr>client_phone := ''555''\<rparr>\<rparr>,
       (AuthProvider_init ''https://app.test'' ''/'' [] Map.empty Map.empty)
           \<lparr>user := Some \<lparr>User_id = ''u1'', email = ''a@b.c''\<rparr>\<rparr>))) = []
   \<and> calls (snd (click_add_referral_button None None (\<lambda>q. Inr [])
      (\<lparr>users = [], admin_referrals = [], admin_loading = True,
           admin_newReferral = empty_admin_newReferral, admin_isAdding = False\<rparr>\<lparr>admin_newReferral := empty_admin_newReferral\<lparr>new_user_id := ''u1''\<rparr>\<rparr>,
       (AuthProvider_init ''https://app.test'' ''/'' [] Map.empty Map.empty)
           \<lparr>user := Some \<lparr>User_id = ''u1'', email = ''a@b.c''\<rparr>\<rparr>))) = []"
  using empty_client_name_rejected [where
      d = "ReferrerDashboard_init\<lparr>newReferral := empty_newReferral\<lparr>client_phone := ''555''\<rparr>\<rparr>"
      and email_ok = "\<lambda>s. True" and ins = None and store = "\<lambda>q. Inr []"
      and w = "(AuthProvider_init ''https://app.test'' ''/'' [] Map.empty Map.empty)
           \<lparr>user := Some \<lparr>User_id = ''u1'', email = ''a@b.c''\<rparr>\<rparr>"
      and a = "\<lparr>users = [], admin_referrals = [], admin_loading = True,
           admin_newReferral = empty_admin_newReferral, admin_isAdding = False\<rparr>\<lparr>admin_newReferral := empty_admin_newReferral\<lparr>new_user_id := ''u1''\<rparr>\<rparr>"
      and ins' = None and profilesData = None and store' = "\<lambda>q. Inr []"]
  by (simp add: empty_newReferral_def empty_admin_newReferral_def AuthProvider_init_def)

text \<open>
  Claim C9: after an insert that the store accepts, \<open>handleAddReferral\<close> sends the select
  of \<open>fetchReferrals\<close>, and the list it leaves is the data the store answers to that
  select (the list as it was when the select fails), whatever was typed into the form.
  After an update of the payment details that the store accepts,
  \<open>handleSavePaymentDetails\<close> sends the select of \<open>fetchUserProfile\<close>, and the profile it
  leaves is the row of that select (the profile as it was when the select fails).
\<close>

theorem mutations_refetch:
  "(case handleAddReferral None store (d, w) of
      (d', w') \<Rightarrow>
        calls w' = calls w @
          [Insert_referral
             \<lparr>client_name = client_name (newReferral d), client_email = client_email (newReferral d),
              client_phone = client_phone (newReferral d),
              client_address = client_address (newReferral d),
              insert_user_id = map_option User_id (user w),
              insert_profile_id = map_option profile_id (userProfile d)\<rparr>,
           Select_referrals
             \<lparr>embed_profiles = False, eq_user_id = Some (map_option User_id (user w)),
              order_created_at_ascending = Some False\<rparr>]
        \<and> referrals d' =
            (case store \<lparr>embed_profiles = False, eq_user_id = Some (map_option User_id (user w)),
                         order_created_at_ascending = Some False\<rparr> of
               Inr data \<Rightarrow> data
             | Inl e \<Rightarrow> referrals d))
   \<and> (userProfile d = Some p \<and> paymentMethod d \<noteq> [] \<and> profile_id p \<noteq> [] \<longrightarrow>
        (case handleSavePaymentDetails None fetched_profile (d, w) of
           (d', w') \<Rightarrow>
             calls w' = calls w @
               [Update_profile (profile_id p) (paymentMethod d) (paymentDetails d),
                Select_profile (map_option User_id (user w))]
             \<and> userProfile d' =
                 (case fetched_profile of Inr data \<Rightarrow> Some data | Inl e \<Rightarrow> userProfile d)))"
proof (intro conjI impI)
  show "case handleAddReferral None store (d, w) of
      (d', w') \<Rightarrow>
        calls w' = calls w @
          [Insert_referral
             \<lparr>client_name = client_name (newReferral d), client_email = client_email (newReferral d),
              client_phone = client_phone (newReferral d),
              client_address = client_address (newReferral d),
              insert_user_id = map_option User_id (user w),
              insert_profile_id = map_option profile_id (userProfile d)\<rparr>,
           Select_referrals
             \<lparr>embed_profiles = False, eq_user_id = Some (map_option User_id (user w)),
              order_created_at_ascending = Some False\<rparr>]
        \<and> referrals d' =
            (case store \<lparr>embed_profiles = False, eq_user_id = Some (map_option User_id (user w)),
                         order_created_at_ascending = Some False\<rparr> of
               Inr data \<Rightarrow> data
             | Inl e \<Rightarrow> referrals d)"
    by (simp add: handleAddReferral_def fetchReferrals_def adapter_defs Let_def
          split: sum.split)
next
  assume "userProfile d = Some p \<and> paymentMethod d \<noteq> [] \<and> profile_id p \<noteq> []"
  then show "case handleSavePaymentDetails None fetched_profile (d, w) of
           (d', w') \<Rightarrow>
             calls w' = calls w @
               [Update_profile (profile_id p) (paymentMethod d) (paymentDetails d),
                Select_profile (map_option User_id (user w))]
             \<and> userProfile d' =
                 (case fetched_profile of Inr data \<Rightarrow> Some data | Inl e \<Rightarrow> userProfile d)"
    by (simp add: handleSavePaymentDetails_def fetchUserProfile_def adapter_defs Let_def
          split: sum.split)
qed

theorem mutations_refetch_witness:
  "map referral_id (referrals (fst (handleAddReferral None
      (\<lambda>q. Inr [\<lparr>client_name = ''Cy'', client_email = [], client_phone = [], client_address = [],
            referral_id = ''r3'', user_id = ''u1'', stage = ''Solar Installed'',
            bonus_status = ''Paid'', referral_notes = [], created_at = 3\<rparr>,
            \<lparr>client_name = ''Ann'', client_email = [], client_phone = [], client_address = [],
            referral_id = ''r1'', user_id = ''u1'', stage = ''Referred Connection'',
            bonus_status = ''Pending'', referral_notes = [], created_at = 1\<rparr>])
      (ReferrerDashboard_init\<lparr>newReferral := empty_newReferral\<lparr>client_name := ''Cy''\<rparr>\<rparr>,
       (AuthProvider_init ''https://app.test'' ''/'' [] Map.empty Map.empty)
           \<lparr>user := Some \<lparr>User_id = ''u1'', email = ''a@b.c''\<rparr>\<rparr>)))) = [''r3'', ''r1'']
   \<and> map_option payment_method (userProfile (fst (handleSavePaymentDetails None
      (Inr \<lparr>profile_id = ''p1'', profile_user_id = ''u1'', profile_name = ''Ann'',
            payment_method = Some ''paypal'', payment_details = [(''email'', ''a@b.c'')]\<rparr>)
      (ReferrerDashboard_init
         \<lparr>userProfile := Some \<lparr>profile_id = ''p1'', profile_user_id = ''u1'', profile_name = ''Ann'',
                                payment_method = None, payment_details = []\<rparr>,
          paymentMethod := ''paypal'', paymentDetails := [(''email'', ''a@b.c'')]\<rparr>,
       (AuthProvider_init ''https://app.test'' ''/'' [] Map.empty Map.empty)
           \<lparr>user := Some \<lparr>User_id = ''u1'', email = ''a@b.c''\<rparr>\<rparr>)))) = Some (Some ''paypal'')"
  using mutations_refetch [where
      store = "\<lambda>q. Inr [\<lparr>client_name = ''Cy'', client_email = [], client_phone = [], client_address = [],
            referral_id = ''r3'', user_id = ''u1'', stage = ''Solar Installed'',
            bonus_status = ''Paid'', referral_notes = [], created_at = 3\<rparr>,
            \<lparr>client_name = ''Ann'', client_email = [], client_phone = [], client_address = [],
            referral_id = ''r1'', user_id = ''u1'', stage = ''Referred Connection'',
            bonus_status = ''Pending'', referral_notes = [], created_at = 1\<rparr>]"
      and d = "ReferrerDashboard_init\<lparr>newReferral := empty_newReferral\<lparr>client_name := ''Cy''\<rparr>\<rparr>"
      and w = "(AuthProvider_init ''https://app.test'' ''/'' [] Map.empty Map.empty)
           \<lparr>user := Some \<lparr>User_id = ''u1'', email = ''a@b.c''\<rparr>\<rparr>"]
    mutations_refetch [where
      d = "ReferrerDashboard_init
         \<lparr>userProfile := Some \<lparr>profile_id = ''p1'', profile_user_id = ''u1'', profile_name = ''Ann'',
                                payment_method = None, payment_details = []\<rparr>,
          paymentMethod := ''paypal'', paymentDetails := [(''email'', ''a@b.c'')]\<rparr>"
      and p = "\<lparr>profile_id = ''p1'', profile_user_id = ''u1'', profile_name = ''Ann'',
                payment_method = None, payment_details = []\<rparr>"
      and fetched_profile = "Inr \<lparr>profile_id = ''p1'', profile_user_id = ''u1'', profile_name = ''Ann'',
            payment_method = Some ''paypal'', payment_details = [(''email'', ''a@b.c'')]\<rparr>"
      and w = "(AuthProvider_init ''https://app.test'' ''/'' [] Map.empty Map.empty)
           \<lparr>user := Some \<lparr>User_id = ''u1'', email = ''a@b.c''\<rparr>\<rparr>"]
  by (simp add: case_prod_beta ReferrerDashboard_init_def)

section \<open>Notifications and results of the adapter's operations\<close>

text \<open>
  Claim C8, as the specification states it, fails on the code: \<open>signOut\<close> shows no
  notification, also when the provider reports an error, and returns nothing; and
  \<open>signIn\<close> shows no notification when it succeeds.
\<close>

theorem adapter_notifications_counterexample:
  "toasts (signOut (Some (AuthError ''Failed to fetch''))
      (AuthProvider_init ''https://app.test'' ''/'' [] Map.empty Map.empty)) = []
   \<and> toasts (snd (signIn ''a@b.c'' ''secret1'' None
      (AuthProvider_init ''https://app.test'' ''/auth'' [] Map.empty Map.empty))) = []"
  by (simp add: signOut_def signIn_def AuthProvider_init_def adapter_defs)

text \<open>
  Claim C8, amended. \<open>signUp\<close> returns the provider's error when there is one, the
  account-exists error when the provider answers with a user and no session, and null
  otherwise, and shows the one notification that goes with it ("Sign up failed" with the
  provider's message, "Account already exists", or "Check your email"). \<open>resetPassword\<close>
  returns the provider's error or null and shows "Reset failed" with the provider's
  message, or "Check your email". \<open>updatePassword\<close> returns the provider's answer when it
  found a session to use and the no-valid-session error otherwise, and shows "Password
  update failed" with the returned error's message, or "Password updated". \<open>signIn\<close>
  returns the provider's error and shows one destructive notification when there is
  one, none otherwise; \<open>signOut\<close> shows no notification (and returns nothing). No
  operation repeats a request: \<open>signUp\<close>, \<open>signIn\<close>, \<open>resetPassword\<close> and \<open>signOut\<close> send
  exactly one; \<open>updatePassword\<close> sends none when it finds no session, and otherwise one
  password update, preceded by one \<open>setSession\<close> when a stored recovery session is used.
\<close>

theorem adapter_notifications:
  "(case signUp mail pwd name resp w of
      (result, w') \<Rightarrow>
        result =
          (case resp of
             AuthFailure e \<Rightarrow> Some e
           | AuthData u s \<Rightarrow>
               if u \<noteq> None \<and> s = None then
                 Some (AuthError
                   ''You already have an account with this email. Please sign in instead.'')
               else None)
        \<and> toasts w' = toasts w @
            [case resp of
               AuthFailure e \<Rightarrow>
                 \<lparr>title = ''Sign up failed'', description = message e, variant = Destructive\<rparr>
             | AuthData u s \<Rightarrow>
                 if u \<noteq> None \<and> s = None then
                   \<lparr>title = ''Account already exists'',
                    description =
                      ''You already have an account with this email. Please sign in instead.'',
                    variant = Destructive\<rparr>
                 else
                   \<lparr>title = ''Check your email'',
                    description = ''Please check your email for a confirmation link.'',
                    variant = Default\<rparr>]
        \<and> length (toasts w') = Suc (length (toasts w))
        \<and> (variant (last (toasts w')) = Destructive) = (result \<noteq> None)
        \<and> calls w' = calls w @ [Auth_signUp mail pwd name (origin w @ ''/'')])
   \<and> (case resetPassword mail err w of
        (result, w') \<Rightarrow>
          result = err
          \<and> toasts w' = toasts w @
              [case err of
                 Some e \<Rightarrow>
                   \<lparr>title = ''Reset failed'', description = message e, variant = Destructive\<rparr>
               | None \<Rightarrow>
                   \<lparr>title = ''Check your email'',
                    description =
                      ''We've sent you a password reset link that expires in 15 minutes.'',
                    variant = Default\<rparr>]
          \<and> length (toasts w') = Suc (length (toasts w))
          \<and> (variant (last (toasts w')) = Destructive) = (result \<noteq> None)
          \<and> calls w' = calls w @ [Auth_resetPasswordForEmail mail (origin w @ ''/reset-password'')])
   \<and> (case updatePassword JSON_parse err pwd w of
        (result, w') \<Rightarrow>
          result =
            (if sessionToUse_has_token (read_recovery_session JSON_parse w) (session w) then err
             else Some (AuthError ''No valid session found for password reset''))
          \<and> toasts w' = toasts w @
              [case result of
                 Some e \<Rightarrow>
                   \<lparr>title = ''Password update failed'', description = message e,
                    variant = Destructive\<rparr>
               | None \<Rightarrow>
                   \<lparr>title = ''Password updated'',
                    description = ''Your password has been successfully updated.'',
                    variant = Default\<rparr>]
          \<and> calls w' = calls w @
              (if sessionToUse_has_token (read_recovery_session JSON_parse w) (session w) then
                 (if truthy (read_recovery_session JSON_parse w) then
                    [Auth_setSession (get_prop (read_recovery_session JSON_parse w) ''access_token'')
                       (get_prop (read_recovery_session JSON_parse w) ''refresh_token'')]
                  else [])
                 @ [Auth_updateUser pwd]
               else [])
          \<and> length (toasts w') = Suc (length (toasts w))
          \<and> (variant (last (toasts w')) = Destructive) = (result \<noteq> None)
          \<and> length (filter (\<lambda>c. c = Auth_updateUser pwd) (calls w'))
              \<le> Suc (length (filter (\<lambda>c. c = Auth_updateUser pwd) (calls w)))
          \<and> length (calls w') \<le> length (calls w) + 2)
   \<and> (case signIn mail pwd err w of
        (result, w') \<Rightarrow>
          result = err
          \<and> toasts w' = toasts w @
               (case err of
                  Some e \<Rightarrow> [\<lparr>title = ''Sign in failed'', description = message e,
                               variant = Destructive\<rparr>]
                | None \<Rightarrow> [])
          \<and> calls w' = calls w @ [Auth_signInWithPassword mail pwd])
   \<and> toasts (signOut err w) = toasts w
   \<and> calls (signOut err w) = calls w @ [Auth_signOut]"
proof (intro conjI)
  show "(case signUp mail pwd name resp w of
      (result, w') \<Rightarrow>
        result =
          (case resp of
             AuthFailure e \<Rightarrow> Some e
           | AuthData u s \<Rightarrow>
               if u \<noteq> None \<and> s = None then
                 Some (AuthError
                   ''You already have an account with this email. Please sign in instead.'')
               else None)
        \<and> toasts w' = toasts w @
            [case resp of
               AuthFailure e \<Rightarrow>
                 \<lparr>title = ''Sign up failed'', description = message e, variant = Destructive\<rparr>
             | AuthData u s \<Rightarrow>
                 if u \<noteq> None \<and> s = None then
                   \<lparr>title = ''Account already exists'',
                    description =
                      ''You already have an account with this email. Please sign in instead.'',
                    variant = Destructive\<rparr>
                 else
                   \<lparr>title = ''Check your email'',
                    description = ''Please check your email for a confirmation link.'',
                    variant = Default\<rparr>]
        \<and> length (toasts w') = Suc (length (toasts w))
        \<and> (variant (last (toasts w')) = Destructive) = (result \<noteq> None)
        \<and> calls w' = calls w @ [Auth_signUp mail pwd name (origin w @ ''/'')])"
    by (simp add: signUp_def adapter_defs Let_def split: AuthResponse.split)
next
  show "(case resetPassword mail err w of
        (result, w') \<Rightarrow>
          result = err
          \<and> toasts w' = toasts w @
              [case err of
                 Some e \<Rightarrow>
                   \<lparr>title = ''Reset failed'', description = message e, variant = Destructive\<rparr>
               | None \<Rightarrow>
                   \<lparr>title = ''Check your email'',
                    description =
                      ''We've sent you a password reset link that expires in 15 minutes.'',
                    variant = Default\<rparr>]
          \<and> length (toasts w') = Suc (length (toasts w))
          \<and> (variant (last (toasts w')) = Destructive) = (result \<noteq> None)
          \<and> calls w' = calls w @ [Auth_resetPasswordForEmail mail (origin w @ ''/reset-password'')])"
    by (simp add: resetPassword_def adapter_defs Let_def split: option.split)
next
  show "(case updatePassword JSON_parse err pwd w of
        (result, w') \<Rightarrow>
          result =
            (if sessionToUse_has_token (read_recovery_session JSON_parse w) (session w) then err
             else Some (AuthError ''No valid session found for password reset''))
          \<and> toasts w' = toasts w @
              [case result of
                 Some e \<Rightarrow>
                   \<lparr>title = ''Password update failed'', description = message e,
                    variant = Destructive\<rparr>
               | None \<Rightarrow>
                   \<lparr>title = ''Password updated'',
                    description = ''Your password has been successfully updated.'',
                    variant = Default\<rparr>]
          \<and> calls w' = calls w @
              (if sessionToUse_has_token (read_recovery_session JSON_parse w) (session w) then
                 (if truthy (read_recovery_session JSON_parse w) then
                    [Auth_setSession (get_prop (read_recovery_session JSON_parse w) ''access_token'')
                       (get_prop (read_recovery_session JSON_parse w) ''refresh_token'')]
                  else [])
                 @ [Auth_updateUser pwd]
               else [])
          \<and> length (toasts w') = Suc (length (toasts w))
          \<and> (variant (last (toasts w')) = Destructive) = (result \<noteq> None)
          \<and> length (filter (\<lambda>c. c = Auth_updateUser pwd) (calls w'))
              \<le> Suc (length (filter (\<lambda>c. c = Auth_updateUser pwd) (calls w)))
          \<and> length (calls w') \<le> length (calls w) + 2)"
    by (simp add: updatePassword_def adapter_defs Let_def split: option.split)
next
  show "(case signIn mail pwd err w of
        (result, w') \<Rightarrow>
          result = err
          \<and> toasts w' = toasts w @
               (case err of
                  Some e \<Rightarrow> [\<lparr>title = ''Sign in failed'', description = message e,
                               variant = Destructive\<rparr>]
                | None \<Rightarrow> [])
          \<and> calls w' = calls w @ [Auth_signInWithPassword mail pwd])"
    by (simp add: signIn_def adapter_defs Let_def split: option.split)
next
  show "toasts (signOut err w) = toasts w"
    by (simp add: signOut_def adapter_defs)
next
  show "calls (signOut err w) = calls w @ [Auth_signOut]"
    by (simp add: signOut_def adapter_defs)
qed

theorem adapter_notifications_witness:
  "toasts (snd (resetPassword ''a@b.c'' (Some (AuthError ''Email rate limit exceeded''))
      (AuthProvider_init ''https://app.test'' ''/auth'' [] Map.empty Map.empty))) =
     [\<lparr>title = ''Reset failed'', description = ''Email rate limit exceeded'',
       variant = Destructive\<rparr>]
   \<and> calls (snd (signIn ''a@b.c'' ''secret1'' (Some (AuthError ''Email rate limit exceeded''))
      (AuthProvider_init ''https://app.test'' ''/auth'' [] Map.empty Map.empty))) =
     [Auth_signInWithPassword ''a@b.c'' ''secret1'']
   \<and> signUp ''a@b.c'' ''secret1'' ''Ann'' (AuthFailure (AuthError ''Signups not allowed''))
      (AuthProvider_init ''https://app.test'' ''/auth'' [] Map.empty Map.empty) =
     (Some (AuthError ''Signups not allowed''),
      (AuthProvider_init ''https://app.test'' ''/auth'' [] Map.empty Map.empty)
        \<lparr>toasts := [\<lparr>title = ''Sign up failed'', description = ''Signups not allowed'',
                      variant = Destructive\<rparr>],
         calls := [Auth_signUp ''a@b.c'' ''secret1'' ''Ann'' ''https://app.test/'']\<rparr>)
   \<and> calls (snd (updatePassword (\<lambda>s. None) (Some (AuthError ''Email rate limit exceeded''))
      ''secret1''
      (AuthProvider_init ''https://app.test'' ''/auth'' [] Map.empty Map.empty))) = []"
  using adapter_notifications [where mail = "''a@b.c''" and pwd = "''secret1''"
      and name = "''Ann''" and resp = "AuthFailure (AuthError ''Signups not allowed'')"
      and err = "Some (AuthError ''Email rate limit exceeded'')"
      and JSON_parse = "\<lambda>s. None"
      and w = "AuthProvider_init ''https://app.test'' ''/auth'' [] Map.empty Map.empty"]
  by (simp add: case_prod_beta resetPassword_def signUp_def AuthProvider_init_def adapter_defs
        read_recovery_session_def sessionToUse_has_token_def Let_def)

end
